theory Spec2Isabelle
  imports Main
begin

section \<open>Go library primitives used by the configuration cache\<close>

text \<open>
  The cache (package \<open>config\<close>) is written against a handful of standard-library
  primitives: wall-clock time, \<open>strings.TrimSpace\<close>, \<open>filepath.Join\<close>, three file
  operations of package \<open>os\<close>, \<open>sync.RWMutex\<close>, \<open>context.Context\<close> and
  \<open>encoding/json\<close>. Each is modelled below as an executable function. Go strings and
  byte slices are lists of bytes (\<open>char\<close>).
\<close>

subsection \<open>Time\<close>

text \<open>
  A \<open>time.Time\<close> is the number of nanoseconds since Go's zero time, so the zero value
  of the type is \<open>0\<close>. A \<open>time.Duration\<close> is a signed 64-bit count of nanoseconds, and
  \<open>Time.Sub\<close> saturates at its bounds.
\<close>

type_synonym time = int
type_synonym duration = int
type_synonym bytes = "char list"
type_synonym addr = nat

definition maxDuration :: duration where
  "maxDuration = 2 ^ 63 - 1"

definition minDuration :: duration where
  "minDuration = - (2 ^ 63)"

definition time_Minute :: duration where
  "time_Minute = 60 * 1000000000"

definition time_Sub :: "time \<Rightarrow> time \<Rightarrow> duration" where
  "time_Sub t u =
     (if t - u > maxDuration then maxDuration
      else if t - u < minDuration then minDuration
      else t - u)"

definition time_Since :: "time \<Rightarrow> time \<Rightarrow> duration" where
  \<comment> \<open>\<open>time.Since(t)\<close>, the first argument being the reading of \<open>time.Now()\<close>\<close>
  "time_Since now t = time_Sub now t"

definition time_After :: "time \<Rightarrow> time \<Rightarrow> bool" where
  \<comment> \<open>\<open>t.After(u)\<close>\<close>
  "time_After t u = (u < t)"

subsection \<open>Strings and paths\<close>

text \<open>
  \<open>strings.TrimSpace\<close> removes every leading and trailing Unicode white-space code
  point. On the UTF-8 bytes of a Go string these are exactly the following encodings
  (U+0009..U+000D, U+0020, U+0085, U+00A0, U+1680, U+2000..U+200A, U+2028, U+2029,
  U+202F, U+205F, U+3000).
\<close>

definition space_encodings :: "string list" where
  "space_encodings =
     [[CHR 0x09], [CHR 0x0A], [CHR 0x0B], [CHR 0x0C], [CHR 0x0D], [CHR 0x20],
      [CHR 0xC2, CHR 0x85], [CHR 0xC2, CHR 0xA0],
      [CHR 0xE1, CHR 0x9A, CHR 0x80],
      [CHR 0xE2, CHR 0x80, CHR 0x80], [CHR 0xE2, CHR 0x80, CHR 0x81],
      [CHR 0xE2, CHR 0x80, CHR 0x82], [CHR 0xE2, CHR 0x80, CHR 0x83],
      [CHR 0xE2, CHR 0x80, CHR 0x84], [CHR 0xE2, CHR 0x80, CHR 0x85],
      [CHR 0xE2, CHR 0x80, CHR 0x86], [CHR 0xE2, CHR 0x80, CHR 0x87],
      [CHR 0xE2, CHR 0x80, CHR 0x88], [CHR 0xE2, CHR 0x80, CHR 0x89],
      [CHR 0xE2, CHR 0x80, CHR 0x8A],
      [CHR 0xE2, CHR 0x80, CHR 0xA8], [CHR 0xE2, CHR 0x80, CHR 0xA9],
      [CHR 0xE2, CHR 0x80, CHR 0xAF],
      [CHR 0xE2, CHR 0x81, CHR 0x9F],
      [CHR 0xE3, CHR 0x80, CHR 0x80]]"

definition space_prefix :: "string \<Rightarrow> nat" where
  \<comment> \<open>the width of the white-space code point the string starts with, or 0\<close>
  "space_prefix s =
     (case find (\<lambda>e. take (length e) s = e) space_encodings of
        None \<Rightarrow> 0
      | Some e \<Rightarrow> length e)"

definition space_suffix :: "string \<Rightarrow> nat" where
  \<comment> \<open>the width of the white-space code point the string ends with, or 0\<close>
  "space_suffix s =
     (case find (\<lambda>e. length e \<le> length s \<and> drop (length s - length e) s = e)
             space_encodings of
        None \<Rightarrow> 0
      | Some e \<Rightarrow> length e)"

fun trim_left :: "nat \<Rightarrow> string \<Rightarrow> string" where
  "trim_left 0 s = s"
| "trim_left (Suc n) s =
     (if space_prefix s = 0 then s else trim_left n (drop (space_prefix s) s))"

fun trim_right :: "nat \<Rightarrow> string \<Rightarrow> string" where
  "trim_right 0 s = s"
| "trim_right (Suc n) s =
     (if space_suffix s = 0 then s
      else trim_right n (take (length s - space_suffix s) s))"

definition TrimSpace :: "string \<Rightarrow> string" where
  \<comment> \<open>both loops strip at least one byte per round, so \<open>length s\<close> rounds suffice\<close>
  "TrimSpace s = (let l = trim_left (length s) s in trim_right (length l) l)"

definition Sprintf_json :: "string \<Rightarrow> string" where
  \<comment> \<open>\<open>fmt.Sprintf("%s.json", name)\<close>\<close>
  "Sprintf_json name = name @ ''.json''"

fun split_sep :: "char \<Rightarrow> string \<Rightarrow> string list" where
  "split_sep c [] = [[]]"
| "split_sep c (x # xs) =
     (if x = c then [] # split_sep c xs
      else (case split_sep c xs of
              [] \<Rightarrow> [[x]]
            | y # ys \<Rightarrow> (x # y) # ys))"

fun join_sep :: "string \<Rightarrow> string list \<Rightarrow> string" where
  "join_sep sep [] = []"
| "join_sep sep [e] = e"
| "join_sep sep (e # es) = e @ sep @ join_sep sep es"

text \<open>
  \<open>filepath.Clean\<close> on a Unix path: empty and \<open>.\<close> elements are dropped, a \<open>..\<close>
  removes the element before it, a \<open>..\<close> at the root is dropped, and leading \<open>..\<close>
  elements of a relative path stay. The elements kept so far are held last first.
\<close>

definition clean_step :: "bool \<Rightarrow> string list \<Rightarrow> string \<Rightarrow> string list" where
  "clean_step rooted kept e =
     (if e = [] \<or> e = ''.'' then kept
      else if e = ''..'' then
        (case kept of
           [] \<Rightarrow> if rooted then [] else [''..'']
         | t # ts \<Rightarrow> if t = ''..'' then (if rooted then kept else ''..'' # kept) else ts)
      else e # kept)"

definition filepath_Clean :: "string \<Rightarrow> string" where
  "filepath_Clean path =
     (if path = [] then ''.''
      else
        let rooted = (hd path = CHR ''/'');
            kept = foldl (clean_step rooted) [] (split_sep CHR ''/'' path);
            out = (if rooted then ''/'' else []) @ join_sep ''/'' (rev kept)
        in if out = [] then ''.'' else out)"

fun filepath_Join :: "string list \<Rightarrow> string" where
  "filepath_Join [] = []"
| "filepath_Join (e # es) =
     (if e \<noteq> [] then filepath_Clean (join_sep ''/'' (e # es)) else filepath_Join es)"

definition filepath_Dir :: "string \<Rightarrow> string" where
  \<comment> \<open>\<open>filepath.Dir\<close>: everything before the last separator, cleaned\<close>
  "filepath_Dir path =
     filepath_Clean (rev (dropWhile (\<lambda>c. c \<noteq> CHR ''/'') (rev path)))"

subsection \<open>Errors, contexts and outcomes\<close>

datatype errno = ENOENT | EACCES | EISDIR

datatype error =
    PathError string string errno
  | Canceled
  | DeadlineExceeded
  | UnmarshalError string

datatype ctx = Background | WithCancel bool | WithDeadline time

definition ctx_Err :: "ctx \<Rightarrow> time \<Rightarrow> error option" where
  \<comment> \<open>\<open>ctx.Err()\<close> read at the given instant\<close>
  "ctx_Err c now =
     (case c of
        Background \<Rightarrow> None
      | WithCancel cancelled \<Rightarrow> if cancelled then Some Canceled else None
      | WithDeadline d \<Rightarrow> if d \<le> now then Some DeadlineExceeded else None)"

text \<open>
  A call returns, panics (deferred calls still run), dies with a fatal runtime error
  (the process is gone, nothing runs after it), or waits for a lock forever.
\<close>

datatype 'a outcome = Return 'a | Panic string | Fatal string | Blocked

subsection \<open>The reader/writer mutex\<close>

record RWMutex =
  readers :: nat
  writer :: bool

definition unlocked :: RWMutex where
  "unlocked = \<lparr>readers = 0, writer = False\<rparr>"

definition RLock :: "RWMutex \<Rightarrow> RWMutex option" where
  "RLock m = (if writer m then None else Some (m\<lparr>readers := Suc (readers m)\<rparr>))"

definition RUnlock :: "RWMutex \<Rightarrow> string + RWMutex" where
  "RUnlock m =
     (if readers m = 0 then Inl ''sync: RUnlock of unlocked RWMutex''
      else Inr (m\<lparr>readers := readers m - 1\<rparr>))"

definition Lock :: "RWMutex \<Rightarrow> RWMutex option" where
  "Lock m = (if writer m \<or> 0 < readers m then None else Some (m\<lparr>writer := True\<rparr>))"

definition Unlock :: "RWMutex \<Rightarrow> string + RWMutex" where
  "Unlock m =
     (if writer m then Inr (m\<lparr>writer := False\<rparr>)
      else Inl ''sync: Unlock of unlocked RWMutex'')"

subsection \<open>The file system\<close>

datatype node =
    RegularFile time bool bool bytes
  | Directory time

fun node_ModTime :: "node \<Rightarrow> time" where
  "node_ModTime (RegularFile t r w d) = t"
| "node_ModTime (Directory t) = t"

datatype FileInfo = FileInfo (ModTime: time) (IsDir: bool)

fun node_info :: "node \<Rightarrow> FileInfo" where
  "node_info (RegularFile t r w d) = FileInfo t False"
| "node_info (Directory t) = FileInfo t True"

datatype 't effect =
    Stat string
  | ReadFile string
  | WriteFile string bytes
  | Unmarshal 't bytes

section \<open>The cache\<close>

record 't configValue =
  LastUpdate :: time
  Value :: "('t \<times> addr) option"
  Raw :: bytes

record Cache =
  directory :: string
  lock :: RWMutex
  configs :: "string \<rightharpoonup> addr"
  syncTimeout :: duration

text \<open>
  The program state: the \<open>Cache\<close> struct, the \<open>configValue\<close> objects its map points
  to, the decoded values those point to, the allocator, and the environment (clock,
  files, and the log of the library calls made so far, latest last).
\<close>

record ('t, 'v) system = Cache +
  heap :: "addr \<Rightarrow> 't configValue"
  objects :: "addr \<rightharpoonup> 'v"
  next_addr :: addr
  clock :: time
  files :: "string \<rightharpoonup> node"
  trace :: "'t effect list"

definition fs_stat :: "(string \<rightharpoonup> node) \<Rightarrow> string \<Rightarrow> error + FileInfo" where
  "fs_stat fs path =
     (case fs path of
        None \<Rightarrow> Inl (PathError ''stat'' path ENOENT)
      | Some n \<Rightarrow> Inr (node_info n))"

definition fs_read :: "(string \<rightharpoonup> node) \<Rightarrow> string \<Rightarrow> error + bytes" where
  "fs_read fs path =
     (case fs path of
        None \<Rightarrow> Inl (PathError ''open'' path ENOENT)
      | Some (Directory t) \<Rightarrow> Inl (PathError ''read'' path EISDIR)
      | Some (RegularFile t r w d) \<Rightarrow>
          if r then Inr d else Inl (PathError ''open'' path EACCES))"

definition fs_write ::
  "(string \<rightharpoonup> node) \<Rightarrow> time \<Rightarrow> string \<Rightarrow> bytes \<Rightarrow> nat \<Rightarrow> error + (string \<rightharpoonup> node)" where
  \<comment> \<open>an existing file is truncated and rewritten; a new one is created with the
      owner's read and write bits of \<open>perm\<close>, if its directory exists\<close>
  "fs_write fs now path data perm =
     (case fs path of
        Some (Directory t) \<Rightarrow> Inl (PathError ''open'' path EISDIR)
      | Some (RegularFile t r w d) \<Rightarrow>
          if w then Inr (fs(path \<mapsto> RegularFile now r w data))
          else Inl (PathError ''open'' path EACCES)
      | None \<Rightarrow>
          (case fs (filepath_Dir path) of
             Some (Directory t) \<Rightarrow>
               Inr (fs(path \<mapsto> RegularFile now (odd (perm div 256)) (odd (perm div 128)) data))
           | _ \<Rightarrow> Inl (PathError ''open'' path ENOENT)))"

definition os_Stat :: "string \<Rightarrow> ('t, 'v) system \<Rightarrow> (error + FileInfo) \<times> ('t, 'v) system" where
  "os_Stat path s = (fs_stat (files s) path, s\<lparr>trace := trace s @ [Stat path]\<rparr>)"

definition os_ReadFile :: "string \<Rightarrow> ('t, 'v) system \<Rightarrow> (error + bytes) \<times> ('t, 'v) system" where
  "os_ReadFile path s = (fs_read (files s) path, s\<lparr>trace := trace s @ [ReadFile path]\<rparr>)"

definition os_WriteFile ::
  "string \<Rightarrow> bytes \<Rightarrow> nat \<Rightarrow> ('t, 'v) system \<Rightarrow> error option \<times> ('t, 'v) system" where
  "os_WriteFile path data perm s =
     (case fs_write (files s) (clock s) path data perm of
        Inl err \<Rightarrow> (Some err, s\<lparr>trace := trace s @ [WriteFile path data]\<rparr>)
      | Inr fs \<Rightarrow> (None, s\<lparr>trace := trace s @ [WriteFile path data], files := fs\<rparr>))"

definition NewCache :: "string \<Rightarrow> Cache" where
  "NewCache dir =
     \<lparr>directory = dir, lock = unlocked, configs = Map.empty, syncTimeout = time_Minute\<rparr>"

definition SyncTimeout :: "duration \<Rightarrow> ('t, 'v) system \<Rightarrow> ('t, 'v) system" where
  "SyncTimeout d s = s\<lparr>syncTimeout := d\<rparr>"

definition deferred ::
  "(RWMutex \<Rightarrow> string + RWMutex) \<Rightarrow> 'a outcome \<times> ('t, 'v) system \<Rightarrow> 'a outcome \<times> ('t, 'v) system" where
  \<comment> \<open>a deferred \<open>RUnlock\<close> or \<open>Unlock\<close>, run when the function returns or panics\<close>
  "deferred release rs =
     (case rs of (r, s) \<Rightarrow>
        (case r of
           Fatal m \<Rightarrow> (Fatal m, s)
         | Blocked \<Rightarrow> (Blocked, s)
         | _ \<Rightarrow>
            (case release (lock s) of
               Inl msg \<Rightarrow> (Fatal msg, s)
             | Inr l \<Rightarrow> (r, s\<lparr>lock := l\<rparr>))))"

definition and_then ::
  "'a outcome \<times> 's \<Rightarrow> ('a \<Rightarrow> 's \<Rightarrow> 'b outcome \<times> 's) \<Rightarrow> 'b outcome \<times> 's" where
  \<comment> \<open>the caller goes on only if the callee returned\<close>
  "and_then rs f =
     (case rs of (r, s) \<Rightarrow>
        (case r of
           Return x \<Rightarrow> f x s
         | Panic m \<Rightarrow> (Panic m, s)
         | Fatal m \<Rightarrow> (Fatal m, s)
         | Blocked \<Rightarrow> (Blocked, s)))"

subsection \<open>\<open>verboseGet\<close>\<close>

definition get_path :: "string \<Rightarrow> string \<Rightarrow> string" where
  \<comment> \<open>source line 123: the file \<open>verboseGet\<close> stats and reads\<close>
  "get_path dir name = filepath_Join [dir, Sprintf_json (TrimSpace name)]"

definition update_path :: "string \<Rightarrow> string \<Rightarrow> string" where
  \<comment> \<open>source line 93: the file \<open>UpdateContext\<close> writes\<close>
  "update_path dir name = filepath_Join [dir, Sprintf_json name]"

text \<open>
  \<open>verboseGet\<close> returns \<open>(cfg, updated, err)\<close>. It runs in two stages: the first
  under the shared lock (source lines 106 to 135), the second under the exclusive lock
  (lines 136 to 159). The first stage either returns, or releases the shared lock and
  hands the path and the \<open>FileInfo\<close> of its stat to the second.
\<close>

type_synonym verbose = "addr option \<times> bool \<times> error option"

datatype shared_stage = Done "verbose outcome" | Upgrade string FileInfo

definition shared_return ::
  "verbose \<Rightarrow> ('t, 'v) system \<Rightarrow> shared_stage \<times> ('t, 'v) system" where
  \<comment> \<open>\<open>defer cache.lock.RUnlock(); return ...\<close>\<close>
  "shared_return r s = (case deferred RUnlock (Return r, s) of (r', s') \<Rightarrow> (Done r', s'))"

definition verboseGet_shared ::
  "ctx \<Rightarrow> string \<Rightarrow> ('t, 'v) system \<Rightarrow> shared_stage \<times> ('t, 'v) system" where
  "verboseGet_shared c name s =
     (case RLock (lock s) of
        None \<Rightarrow> (Done Blocked, s)
      | Some l \<Rightarrow>
          let s1 = s\<lparr>lock := l\<rparr> in
          if ctx_Err c (clock s1) \<noteq> None then
            shared_return (None, False, ctx_Err c (clock s1)) s1
          else
            let config = configs s1 name in
            if (case config of
                  Some a \<Rightarrow> time_Since (clock s1) (LastUpdate (heap s1 a)) < syncTimeout s1
                | None \<Rightarrow> False)
            then shared_return (config, False, None) s1
            else
              let lastUpdate = (case config of Some a \<Rightarrow> LastUpdate (heap s1 a) | None \<Rightarrow> 0);
                  path = get_path (directory s1) name;
                  (st, s2) = os_Stat path s1
              in case st of
                   Inl err \<Rightarrow> shared_return (None, False, Some err) s2
                 | Inr stat \<Rightarrow>
                     if \<not> time_After (ModTime stat) lastUpdate then
                       shared_return (config, False, None) s2
                     else
                       (case RUnlock (lock s2) of
                          Inl msg \<Rightarrow> (Done (Fatal msg), s2)
                        | Inr l2 \<Rightarrow> (Upgrade path stat, s2\<lparr>lock := l2\<rparr>)))"

definition verboseGet_exclusive ::
  "ctx \<Rightarrow> string \<Rightarrow> string \<Rightarrow> FileInfo \<Rightarrow> ('t, 'v) system \<Rightarrow> verbose outcome \<times> ('t, 'v) system" where
  "verboseGet_exclusive c name path stat s =
     (case Lock (lock s) of
        None \<Rightarrow> (Blocked, s)
      | Some l \<Rightarrow>
          let s1 = s\<lparr>lock := l\<rparr> in
          deferred Unlock
            (if ctx_Err c (clock s1) \<noteq> None then
               (Return (None, False, ctx_Err c (clock s1)), s1)
             else
               let config = configs s1 name in
               if (case config of
                     Some a \<Rightarrow> \<not> time_After (ModTime stat) (LastUpdate (heap s1 a))
                   | None \<Rightarrow> False)
               then (Return (config, False, None), s1)
               else
                 let loaded = clock s1;
                     (rd, s2) = os_ReadFile path s1
                 in case rd of
                      Inl err \<Rightarrow> deferred RUnlock (Return (None, False, Some err), s2)
                    | Inr data \<Rightarrow>
                        let a = next_addr s2;
                            s3 = s2\<lparr>heap := (heap s2)
                                     (a := \<lparr>LastUpdate = loaded, Value = None, Raw = data\<rparr>),
                                   next_addr := Suc a\<rparr>
                        in (Return (Some a, True, None),
                            s3\<lparr>configs := (configs s3)(name \<mapsto> a)\<rparr>)))"

definition verboseGet ::
  "ctx \<Rightarrow> string \<Rightarrow> ('t, 'v) system \<Rightarrow> verbose outcome \<times> ('t, 'v) system" where
  \<comment> \<open>one caller, nothing else running between the two stages\<close>
  "verboseGet c name s =
     (case verboseGet_shared c name s of (stage, s1) \<Rightarrow>
        (case stage of
           Done r \<Rightarrow> (r, s1)
         | Upgrade path stat \<Rightarrow> verboseGet_exclusive c name path stat s1))"

subsection \<open>The untyped interface\<close>

definition Cache_GetContext ::
  "ctx \<Rightarrow> string \<Rightarrow> ('t, 'v) system \<Rightarrow> (bytes option \<times> error option) outcome \<times> ('t, 'v) system" where
  "Cache_GetContext c name s =
     and_then (verboseGet c name s) (\<lambda>(cfg, updated, err) s1.
       if err \<noteq> None then (Return (None, err), s1)
       else case cfg of
              None \<Rightarrow> (Return (None, None), s1)
            | Some a \<Rightarrow> (Return (Some (Raw (heap s1 a)), err), s1))"

definition Cache_UpdateContext ::
  "ctx \<Rightarrow> string \<Rightarrow> bytes \<Rightarrow> ('t, 'v) system \<Rightarrow> error option outcome \<times> ('t, 'v) system" where
  "Cache_UpdateContext c name data s =
     (case Lock (lock s) of
        None \<Rightarrow> (Blocked, s)
      | Some l \<Rightarrow>
          let s1 = s\<lparr>lock := l\<rparr> in
          deferred Unlock
            (if ctx_Err c (clock s1) \<noteq> None then (Return (ctx_Err c (clock s1)), s1)
             else
               let path = update_path (directory s1) name;
                   (err, s2) = os_WriteFile path data 438 s1
               in (Return err, s2)))"

definition Cache_Get ::
  "string \<Rightarrow> ('t, 'v) system \<Rightarrow> (bytes option \<times> error option) outcome \<times> ('t, 'v) system" where
  "Cache_Get name s = Cache_GetContext Background name s"

definition Cache_Update ::
  "string \<Rightarrow> bytes \<Rightarrow> ('t, 'v) system \<Rightarrow> error option outcome \<times> ('t, 'v) system" where
  "Cache_Update name data s = Cache_UpdateContext Background name data s"

subsection \<open>The typed interface\<close>

text \<open>
  The type parameter \<open>T\<close> of \<open>GetContext[T]\<close> is a tag of type \<open>'t\<close>; the slot
  \<open>cfg.Value\<close> of type \<open>any\<close> holds the tag of the pointer's type beside the pointer.
  \<open>json.Unmarshal\<close> is a parameter: given the target type and the raw bytes it yields
  an error or the decoded value.
\<close>

definition type_assert :: "'t \<Rightarrow> ('t \<times> addr) option \<Rightarrow> addr outcome" where
  \<comment> \<open>\<open>v.(*T)\<close>, the form without \<open>ok\<close>\<close>
  "type_assert T v =
     (case v of
        None \<Rightarrow> Panic ''interface conversion: interface is nil''
      | Some (T', p) \<Rightarrow>
          if T' = T then Return p
          else Panic ''interface conversion: interface holds a pointer of another type'')"

definition cached_value ::
  "'t \<Rightarrow> addr option \<Rightarrow> bool \<Rightarrow> ('t, 'v) system \<Rightarrow> (addr option \<times> error option) outcome option" where
  \<comment> \<open>\<open>if cfg.Value != nil && !updated { return cfg.Value.(*T), nil }\<close>;
      \<open>None\<close> when the test fails and the caller goes on\<close>
  "cached_value T cfg updated s =
     (case cfg of
        None \<Rightarrow> Some (Panic ''invalid memory address or nil pointer dereference'')
      | Some a \<Rightarrow>
          if Value (heap s a) \<noteq> None \<and> \<not> updated then
            Some (case type_assert T (Value (heap s a)) of
                    Return p \<Rightarrow> Return (Some p, None)
                  | Panic m \<Rightarrow> Panic m
                  | Fatal m \<Rightarrow> Fatal m
                  | Blocked \<Rightarrow> Blocked)
          else None)"

definition GetContext_locked ::
  "('t \<Rightarrow> bytes \<Rightarrow> error + 'v) \<Rightarrow> 't \<Rightarrow> ctx \<Rightarrow> addr option \<Rightarrow> bool \<Rightarrow> ('t, 'v) system
     \<Rightarrow> (addr option \<times> error option) outcome \<times> ('t, 'v) system" where
  \<comment> \<open>source lines 31 to 45\<close>
  "GetContext_locked unmarshal T c cfg updated s =
     (case Lock (lock s) of
        None \<Rightarrow> (Blocked, s)
      | Some l \<Rightarrow>
          let s1 = s\<lparr>lock := l\<rparr> in
          deferred Unlock
            (if ctx_Err c (clock s1) \<noteq> None then (Return (None, ctx_Err c (clock s1)), s1)
             else
               case cached_value T cfg updated s1 of
                 Some r \<Rightarrow> (r, s1)
               | None \<Rightarrow>
                   (case cfg of
                      None \<Rightarrow> (Panic ''invalid memory address or nil pointer dereference'', s1)
                    | Some a \<Rightarrow>
                        let raw = Raw (heap s1 a);
                            s2 = s1\<lparr>trace := trace s1 @ [Unmarshal T raw]\<rparr>
                        in case unmarshal T raw of
                             Inl err \<Rightarrow> (Return (None, Some err), s2)
                           | Inr v \<Rightarrow>
                               let p = next_addr s2;
                                   s3 = s2\<lparr>objects := (objects s2)(p \<mapsto> v), next_addr := Suc p\<rparr>
                               in (Return (Some p, None),
                                   s3\<lparr>heap := (heap s3)(a := (heap s3 a)\<lparr>Value := Some (T, p)\<rparr>)\<rparr>))))"

definition GetContext ::
  "('t \<Rightarrow> bytes \<Rightarrow> error + 'v) \<Rightarrow> 't \<Rightarrow> ctx \<Rightarrow> string \<Rightarrow> ('t, 'v) system
     \<Rightarrow> (addr option \<times> error option) outcome \<times> ('t, 'v) system" where
  "GetContext unmarshal T c name s =
     and_then (verboseGet c name s) (\<lambda>(cfg, updated, err) s1.
       if err \<noteq> None then (Return (None, err), s1)
       else case cached_value T cfg updated s1 of
              Some r \<Rightarrow> (r, s1)
            | None \<Rightarrow> GetContext_locked unmarshal T c cfg updated s1)"

definition Get ::
  "('t \<Rightarrow> bytes \<Rightarrow> error + 'v) \<Rightarrow> 't \<Rightarrow> string \<Rightarrow> ('t, 'v) system
     \<Rightarrow> (addr option \<times> error option) outcome \<times> ('t, 'v) system" where
  "Get unmarshal T name s = GetContext unmarshal T Background name s"

definition UpdateContext ::
  "('v \<Rightarrow> error + bytes) \<Rightarrow> ctx \<Rightarrow> string \<Rightarrow> 'v \<Rightarrow> ('t, 'v) system
     \<Rightarrow> error option outcome \<times> ('t, 'v) system" where
  "UpdateContext marshal c name v s =
     (case marshal v of
        Inl err \<Rightarrow> (Return (Some err), s)
      | Inr data \<Rightarrow> Cache_UpdateContext c name data s)"

definition Update ::
  "('v \<Rightarrow> error + bytes) \<Rightarrow> string \<Rightarrow> 'v \<Rightarrow> ('t, 'v) system
     \<Rightarrow> error option outcome \<times> ('t, 'v) system" where
  "Update marshal name v s = UpdateContext marshal Background name v s"

definition boot :: "Cache \<Rightarrow> time \<Rightarrow> (string \<rightharpoonup> node) \<Rightarrow> ('t, 'v) system" where
  \<comment> \<open>a process that has just built its cache: nothing allocated, nothing logged\<close>
  "boot c now fs =
     \<lparr>directory = directory c, lock = lock c, configs = configs c,
      syncTimeout = syncTimeout c,
      heap = (\<lambda>a. \<lparr>LastUpdate = 0, Value = None, Raw = []\<rparr>),
      objects = Map.empty, next_addr = 0, clock = now, files = fs, trace = []\<rparr>"

section \<open>Predicates used in the statements\<close>

definition idle :: "RWMutex \<Rightarrow> bool" where
  "idle m = (\<not> writer m \<and> readers m = 0)"

definition fresh :: "string \<Rightarrow> ('t, 'v) system \<Rightarrow> bool" where
  "fresh name s =
     (case configs s name of
        Some a \<Rightarrow> time_Since (clock s) (LastUpdate (heap s a)) < syncTimeout s
      | None \<Rightarrow> False)"

definition lastUpdate_of :: "string \<Rightarrow> ('t, 'v) system \<Rightarrow> time" where
  "lastUpdate_of name s = (case configs s name of Some a \<Rightarrow> LastUpdate (heap s a) | None \<Rightarrow> 0)"

definition superseded :: "FileInfo \<Rightarrow> string \<Rightarrow> ('t, 'v) system \<Rightarrow> bool" where
  "superseded stat name s =
     (case configs s name of
        Some a \<Rightarrow> \<not> time_After (ModTime stat) (LastUpdate (heap s a))
      | None \<Rightarrow> False)"


section \<open>Example states\<close>

definition example_files :: "string \<rightharpoonup> node" where
  "example_files =
     [''testdata'' \<mapsto> Directory 5,
      ''testdata/config_name.json'' \<mapsto> RegularFile 10 True True ''{}'',
      ''testdata/locked.json'' \<mapsto> RegularFile 10 False False ''{}'',
      ''testdata/folder.json'' \<mapsto> Directory 7]"

definition example_loaded :: "string \<Rightarrow> time \<Rightarrow> (string \<rightharpoonup> node) \<Rightarrow> (nat, nat) system" where
  "example_loaded name now fs =
     \<lparr>directory = ''testdata'', lock = unlocked, configs = [name \<mapsto> 0],
      syncTimeout = time_Minute,
      heap = (\<lambda>a. \<lparr>LastUpdate = 100, Value = None, Raw = ''[]''\<rparr>),
      objects = Map.empty, next_addr = 1, clock = now, files = fs, trace = []\<rparr>"


definition example_unmarshal :: "nat \<Rightarrow> bytes \<Rightarrow> error + nat" where
  "example_unmarshal T raw =
     (if T = 0 then Inr (length raw)
      else if raw = ''[]'' then Inr 0
      else Inl (UnmarshalError ''cannot unmarshal object into Go value''))"

definition example_start :: "(nat, nat) system" where
  "example_start = boot (NewCache ''testdata'') 100 example_files"

definition example_decoded :: "(nat, nat) system" where
  "example_decoded =
     \<lparr>directory = ''testdata'', lock = unlocked, configs = [''config_name'' \<mapsto> 0],
      syncTimeout = time_Minute,
      heap = (\<lambda>a. \<lparr>LastUpdate = 0, Value = None, Raw = []\<rparr>)
               (0 := \<lparr>LastUpdate = 100, Value = Some (0, 1), Raw = ''{}''\<rparr>),
      objects = [1 \<mapsto> 2], next_addr = 2, clock = 100, files = example_files,
      trace = [Stat ''testdata/config_name.json'', ReadFile ''testdata/config_name.json'',
               Unmarshal 0 ''{}'']\<rparr>"

definition last_element :: "string \<Rightarrow> string" where
  \<comment> \<open>what follows the last separator of a path\<close>
  "last_element p = rev (takeWhile (\<lambda>c. c \<noteq> CHR ''/'') (rev p))"

definition plain :: "string \<Rightarrow> bool" where
  "plain f = (f \<noteq> [] \<and> CHR ''/'' \<notin> set f \<and> f \<noteq> ''.'' \<and> f \<noteq> ''..'')"

definition example_padded :: "(nat, nat) system" where
  "example_padded =
     example_start\<lparr>trace := [Stat ''testdata/config_name.json'', ReadFile ''testdata/config_name.json''],
        heap := (heap example_start)(0 := \<lparr>LastUpdate = 100, Value = None, Raw = ''{}''\<rparr>),
        next_addr := Suc 0,
        configs := ['' config_name '' \<mapsto> 0],
        clock := 200, files := example_files\<rparr>"

section \<open>The two stages of \<open>verboseGet\<close>\<close>

lemma shared_return_held:
  "shared_return r (s\<lparr>lock := (lock s)\<lparr>readers := Suc (readers (lock s))\<rparr>\<rparr>) = (Done (Return r), s)"
  by (simp add: shared_return_def deferred_def RUnlock_def)

lemma shared_return_held_trace:
  "shared_return r (s\<lparr>lock := (lock s)\<lparr>readers := Suc (readers (lock s))\<rparr>, trace := tr\<rparr>)
     = (Done (Return r), s\<lparr>trace := tr\<rparr>)"
  by (simp add: shared_return_def deferred_def RUnlock_def)

lemma shared_fresh:
  assumes "\<not> writer (lock s)" and "ctx_Err c (clock s) = None" and "fresh name s"
  shows "verboseGet_shared c name s = (Done (Return (configs s name, False, None)), s)"
  using assms
  by (simp add: verboseGet_shared_def RLock_def fresh_def shared_return_held split: option.splits)

lemma shared_stat_fails:
  assumes "\<not> writer (lock s)" and "ctx_Err c (clock s) = None" and "\<not> fresh name s"
    and "fs_stat (files s) (get_path (directory s) name) = Inl err"
  shows "verboseGet_shared c name s =
     (Done (Return (None, False, Some err)), s\<lparr>trace := trace s @ [Stat (get_path (directory s) name)]\<rparr>)"
  using assms
  by (simp add: verboseGet_shared_def RLock_def fresh_def os_Stat_def shared_return_held_trace
       split: option.splits)

lemma shared_unchanged:
  assumes "\<not> writer (lock s)" and "ctx_Err c (clock s) = None" and "\<not> fresh name s"
    and "fs_stat (files s) (get_path (directory s) name) = Inr stat"
    and "\<not> time_After (ModTime stat) (lastUpdate_of name s)"
  shows "verboseGet_shared c name s =
     (Done (Return (configs s name, False, None)), s\<lparr>trace := trace s @ [Stat (get_path (directory s) name)]\<rparr>)"
  using assms
  by (simp add: verboseGet_shared_def RLock_def fresh_def lastUpdate_of_def os_Stat_def
       shared_return_held_trace split: option.splits)

lemma shared_upgrade:
  assumes "\<not> writer (lock s)" and "ctx_Err c (clock s) = None" and "\<not> fresh name s"
    and "fs_stat (files s) (get_path (directory s) name) = Inr stat"
    and "time_After (ModTime stat) (lastUpdate_of name s)"
  shows "verboseGet_shared c name s =
     (Upgrade (get_path (directory s) name) stat, s\<lparr>trace := trace s @ [Stat (get_path (directory s) name)]\<rparr>)"
  using assms
  by (simp add: verboseGet_shared_def RLock_def RUnlock_def fresh_def lastUpdate_of_def os_Stat_def Let_def
       split: option.splits)


lemma exclusive_reload:
  assumes "idle (lock s)" and "ctx_Err c (clock s) = None" and "\<not> superseded stat name s"
    and "fs_read (files s) path = Inr data"
  shows "verboseGet_exclusive c name path stat s =
     (Return (Some (next_addr s), True, None),
      s\<lparr>trace := trace s @ [ReadFile path],
        heap := (heap s)(next_addr s := \<lparr>LastUpdate = clock s, Value = None, Raw = data\<rparr>),
        next_addr := Suc (next_addr s),
        configs := (configs s)(name \<mapsto> next_addr s)\<rparr>)"
  using assms
  by (simp add: verboseGet_exclusive_def Lock_def Unlock_def idle_def superseded_def deferred_def
       os_ReadFile_def Let_def split: option.splits)

lemma exclusive_read_fails:
  assumes "idle (lock s)" and "ctx_Err c (clock s) = None" and "\<not> superseded stat name s"
    and "fs_read (files s) path = Inl err"
  shows "verboseGet_exclusive c name path stat s =
     (Fatal ''sync: RUnlock of unlocked RWMutex'',
      s\<lparr>lock := (lock s)\<lparr>writer := True\<rparr>, trace := trace s @ [ReadFile path]\<rparr>)"
  using assms
  by (simp add: verboseGet_exclusive_def Lock_def Unlock_def RUnlock_def idle_def superseded_def
       deferred_def os_ReadFile_def Let_def split: option.splits)


lemma idle_no_writer: "idle m \<Longrightarrow> \<not> writer m"
  by (simp add: idle_def)

lemma upgrade_not_superseded:
  assumes "time_After (ModTime stat) (lastUpdate_of name s)"
  shows "\<not> superseded stat name (s\<lparr>trace := tr\<rparr>)"
  using assms by (simp add: superseded_def lastUpdate_of_def split: option.splits)

lemma verboseGet_fresh:
  assumes "idle (lock s)" and "ctx_Err c (clock s) = None" and "fresh name s"
  shows "verboseGet c name s = (Return (configs s name, False, None), s)"
  using assms by (simp add: verboseGet_def shared_fresh idle_no_writer)

lemma verboseGet_stat_fails:
  assumes "idle (lock s)" and "ctx_Err c (clock s) = None" and "\<not> fresh name s"
    and "fs_stat (files s) (get_path (directory s) name) = Inl err"
  shows "verboseGet c name s =
     (Return (None, False, Some err), s\<lparr>trace := trace s @ [Stat (get_path (directory s) name)]\<rparr>)"
  using assms by (simp add: verboseGet_def shared_stat_fails idle_no_writer)

lemma verboseGet_unchanged:
  assumes "idle (lock s)" and "ctx_Err c (clock s) = None" and "\<not> fresh name s"
    and "fs_stat (files s) (get_path (directory s) name) = Inr stat"
    and "\<not> time_After (ModTime stat) (lastUpdate_of name s)"
  shows "verboseGet c name s =
     (Return (configs s name, False, None), s\<lparr>trace := trace s @ [Stat (get_path (directory s) name)]\<rparr>)"
  using assms by (simp add: verboseGet_def shared_unchanged idle_no_writer)

lemma verboseGet_reload:
  assumes "idle (lock s)" and "ctx_Err c (clock s) = None" and "\<not> fresh name s"
    and "fs_stat (files s) (get_path (directory s) name) = Inr stat"
    and "time_After (ModTime stat) (lastUpdate_of name s)"
    and "fs_read (files s) (get_path (directory s) name) = Inr data"
  shows "verboseGet c name s =
     (Return (Some (next_addr s), True, None),
      s\<lparr>trace := trace s @ [Stat (get_path (directory s) name), ReadFile (get_path (directory s) name)],
        heap := (heap s)(next_addr s := \<lparr>LastUpdate = clock s, Value = None, Raw = data\<rparr>),
        next_addr := Suc (next_addr s),
        configs := (configs s)(name \<mapsto> next_addr s)\<rparr>)"
proof -
  let ?p = "get_path (directory s) name"
  let ?s1 = "s\<lparr>trace := trace s @ [Stat ?p]\<rparr>"
  have up: "verboseGet_shared c name s = (Upgrade ?p stat, ?s1)"
    using assms by (simp add: shared_upgrade idle_no_writer)
  have ns: "\<not> superseded stat name ?s1"
    using assms(5) by (rule upgrade_not_superseded)
  have "verboseGet_exclusive c name ?p stat ?s1 =
     (Return (Some (next_addr ?s1), True, None),
      ?s1\<lparr>trace := trace ?s1 @ [ReadFile ?p],
        heap := (heap ?s1)(next_addr ?s1 := \<lparr>LastUpdate = clock ?s1, Value = None, Raw = data\<rparr>),
        next_addr := Suc (next_addr ?s1),
        configs := (configs ?s1)(name \<mapsto> next_addr ?s1)\<rparr>)"
    using assms(1,2,6) ns by (intro exclusive_reload) simp_all
  then show ?thesis by (simp add: verboseGet_def up)
qed

lemma verboseGet_read_fails:
  assumes "idle (lock s)" and "ctx_Err c (clock s) = None" and "\<not> fresh name s"
    and "fs_stat (files s) (get_path (directory s) name) = Inr stat"
    and "time_After (ModTime stat) (lastUpdate_of name s)"
    and "fs_read (files s) (get_path (directory s) name) = Inl err"
  shows "verboseGet c name s =
     (Fatal ''sync: RUnlock of unlocked RWMutex'',
      s\<lparr>lock := (lock s)\<lparr>writer := True\<rparr>,
        trace := trace s @ [Stat (get_path (directory s) name), ReadFile (get_path (directory s) name)]\<rparr>)"
proof -
  let ?p = "get_path (directory s) name"
  let ?s1 = "s\<lparr>trace := trace s @ [Stat ?p]\<rparr>"
  have up: "verboseGet_shared c name s = (Upgrade ?p stat, ?s1)"
    using assms by (simp add: shared_upgrade idle_no_writer)
  have ns: "\<not> superseded stat name ?s1"
    using assms(5) by (rule upgrade_not_superseded)
  have "verboseGet_exclusive c name ?p stat ?s1 =
     (Fatal ''sync: RUnlock of unlocked RWMutex'',
      ?s1\<lparr>lock := (lock ?s1)\<lparr>writer := True\<rparr>, trace := trace ?s1 @ [ReadFile ?p]\<rparr>)"
    using assms(1,2,6) ns by (intro exclusive_read_fails) simp_all
  then show ?thesis by (simp add: verboseGet_def up)
qed

section \<open>Properties of the cache\<close>

lemma example_path: "get_path ''testdata'' ''config_name'' = ''testdata/config_name.json''"
  by code_simp

lemma example_path_folder: "get_path ''testdata'' ''folder'' = ''testdata/folder.json''"
  by code_simp

lemma example_path_missing: "get_path ''testdata'' ''missing'' = ''testdata/missing.json''"
  by code_simp

lemma example_update_path: "update_path ''testdata'' ''config_name'' = ''testdata/config_name.json''"
  by code_simp

lemma Cache_GetContext_eq:
  "verboseGet c name s = (Return (cfg, updated, err), s1) \<Longrightarrow>
   Cache_GetContext c name s =
     (if err \<noteq> None then (Return (None, err), s1)
      else case cfg of None \<Rightarrow> (Return (None, None), s1)
           | Some a \<Rightarrow> (Return (Some (Raw (heap s1 a)), None), s1))"
  by (simp add: Cache_GetContext_def and_then_def split: option.splits)

lemmas example_simps = example_loaded_def example_files_def idle_def unlocked_def ctx_Err_def
  time_Since_def time_Sub_def maxDuration_def minDuration_def time_Minute_def time_After_def
  fresh_def lastUpdate_of_def superseded_def fs_stat_def fs_read_def

text \<open>
  Claim C4. If an Entry for the name exists and less than \<open>syncTimeout\<close> has passed
  since its \<open>LastUpdate\<close>, \<open>verboseGet\<close> returns that very Entry, not flagged as
  reloaded, and \<open>Cache.GetContext\<close> returns its raw bytes. The state after the call is
  the state before it: nothing is added to the log of library calls (no stat, no
  read), and neither the map nor the Entry has changed.
\<close>

theorem fast_path_serves_entry:
  assumes "idle (lock s)" and "ctx_Err c (clock s) = None"
    and "configs s name = Some a"
    and "time_Since (clock s) (LastUpdate (heap s a)) < syncTimeout s"
  shows "verboseGet c name s = (Return (Some a, False, None), s) \<and>
         Cache_GetContext c name s = (Return (Some (Raw (heap s a)), None), s)"
proof -
  have f: "fresh name s" using assms(3,4) by (simp add: fresh_def)
  have v: "verboseGet c name s = (Return (Some a, False, None), s)"
    using verboseGet_fresh [OF assms(1,2) f] assms(3) by simp
  show ?thesis using v Cache_GetContext_eq [OF v] by simp
qed

theorem fast_path_serves_entry_witness:
  "verboseGet Background ''config_name'' (example_loaded ''config_name'' 150 Map.empty)
     = (Return (Some 0, False, None), example_loaded ''config_name'' 150 Map.empty) \<and>
   Cache_GetContext Background ''config_name'' (example_loaded ''config_name'' 150 Map.empty)
     = (Return (Some ''[]'', None), example_loaded ''config_name'' 150 Map.empty)"
  using fast_path_serves_entry [of "example_loaded ''config_name'' 150 Map.empty" Background "''config_name''" 0]
  by (simp add: example_loaded_def idle_def unlocked_def ctx_Err_def time_Since_def time_Sub_def
        maxDuration_def minDuration_def time_Minute_def)


text \<open>
  Claim C3. If no fresh Entry exists for the name (none at all, or one whose window
  has expired) and the stat of the backing file fails, the call returns exactly the
  error of the stat and no Entry or bytes; the only library call made is the stat. A
  stale Entry stays in the map but is not what the caller gets.
\<close>

theorem stat_failure_is_reported:
  assumes "idle (lock s)" and "ctx_Err c (clock s) = None" and "\<not> fresh name s"
    and "fs_stat (files s) (get_path (directory s) name) = Inl err"
  shows "verboseGet c name s =
           (Return (None, False, Some err),
            s\<lparr>trace := trace s @ [Stat (get_path (directory s) name)]\<rparr>) \<and>
         Cache_GetContext c name s =
           (Return (None, Some err),
            s\<lparr>trace := trace s @ [Stat (get_path (directory s) name)]\<rparr>)"
proof -
  note v = verboseGet_stat_fails [OF assms]
  show ?thesis using v Cache_GetContext_eq [OF v] by simp
qed

theorem stat_failure_is_reported_witness:
  "Cache_GetContext Background ''missing'' (example_loaded ''missing'' 70000000000 example_files) =
     (Return (None, Some (PathError ''stat'' ''testdata/missing.json'' ENOENT)),
      (example_loaded ''missing'' 70000000000 example_files)
        \<lparr>trace := [Stat ''testdata/missing.json'']\<rparr>) \<and>
   configs (example_loaded ''missing'' 70000000000 example_files) ''missing'' = Some 0"
  using stat_failure_is_reported [of "example_loaded ''missing'' 70000000000 example_files"
      Background "''missing''" "PathError ''stat'' ''testdata/missing.json'' ENOENT"]
  by (simp add: example_simps example_path_missing)

text \<open>
  Claim C5. If the Entry's window has expired, the stat succeeds and the file's
  modification time is not after the Entry's \<open>LastUpdate\<close>, the call makes one stat
  and no read, and returns the cached Entry; its raw bytes and its \<open>LastUpdate\<close> are
  unchanged, since the state differs from the one before only in the log.
\<close>

theorem unchanged_file_is_not_read:
  assumes "idle (lock s)" and "ctx_Err c (clock s) = None"
    and "configs s name = Some a"
    and "\<not> time_Since (clock s) (LastUpdate (heap s a)) < syncTimeout s"
    and "fs_stat (files s) (get_path (directory s) name) = Inr stat"
    and "\<not> time_After (ModTime stat) (LastUpdate (heap s a))"
  shows "verboseGet c name s =
           (Return (Some a, False, None),
            s\<lparr>trace := trace s @ [Stat (get_path (directory s) name)]\<rparr>) \<and>
         Cache_GetContext c name s =
           (Return (Some (Raw (heap s a)), None),
            s\<lparr>trace := trace s @ [Stat (get_path (directory s) name)]\<rparr>)"
proof -
  have nf: "\<not> fresh name s" using assms(3,4) by (simp add: fresh_def)
  have na: "\<not> time_After (ModTime stat) (lastUpdate_of name s)"
    using assms(3,6) by (simp add: lastUpdate_of_def)
  have v: "verboseGet c name s =
      (Return (Some a, False, None), s\<lparr>trace := trace s @ [Stat (get_path (directory s) name)]\<rparr>)"
    using verboseGet_unchanged [OF assms(1,2) nf assms(5) na] assms(3) by simp
  show ?thesis using v Cache_GetContext_eq [OF v] by simp
qed

theorem unchanged_file_is_not_read_witness:
  "Cache_GetContext Background ''config_name''
       (example_loaded ''config_name'' 70000000000 example_files) =
     (Return (Some ''[]'', None),
      (example_loaded ''config_name'' 70000000000 example_files)
        \<lparr>trace := [Stat ''testdata/config_name.json'']\<rparr>)"
  using unchanged_file_is_not_read [of "example_loaded ''config_name'' 70000000000 example_files"
      Background "''config_name''" 0 "FileInfo 10 False"]
  by (simp add: example_simps example_path)

text \<open>
  Claim C2. On the slow path (no fresh Entry, the stat succeeds and shows a modification
  time after the remembered one) with a failing read of the file, the call does not
  return the error of the read. The branch after \<open>os.ReadFile\<close> defers
  \<open>cache.lock.RUnlock()\<close> while the goroutine holds the write lock and no read lock;
  the deferred call runs first when the function returns and the runtime stops the
  process with \<open>sync: RUnlock of unlocked RWMutex\<close>.
\<close>

theorem read_failure_is_fatal:
  assumes "idle (lock s)" and "ctx_Err c (clock s) = None" and "\<not> fresh name s"
    and "fs_stat (files s) (get_path (directory s) name) = Inr stat"
    and "time_After (ModTime stat) (lastUpdate_of name s)"
    and "fs_read (files s) (get_path (directory s) name) = Inl err"
  shows "fst (verboseGet c name s) = Fatal ''sync: RUnlock of unlocked RWMutex'' \<and>
         fst (Cache_GetContext c name s) = Fatal ''sync: RUnlock of unlocked RWMutex'' \<and>
         fst (Cache_GetContext c name s) \<noteq> Return (None, Some err)"
  using verboseGet_read_fails [OF assms]
  by (simp add: Cache_GetContext_def and_then_def)

theorem read_failure_is_fatal_witness:
  "fst (Cache_Get ''folder'' (boot (NewCache ''testdata'') 100 example_files :: (nat, nat) system))
     = Fatal ''sync: RUnlock of unlocked RWMutex'' \<and>
   fs_read example_files ''testdata/folder.json''
     = Inl (PathError ''read'' ''testdata/folder.json'' EISDIR)"
proof -
  let ?s = "boot (NewCache ''testdata'') 100 example_files :: (nat, nat) system"
  have 1: "idle (lock ?s)" by (simp add: boot_def NewCache_def idle_def unlocked_def)
  have 2: "ctx_Err Background (clock ?s) = None" by (simp add: ctx_Err_def)
  have 3: "\<not> fresh ''folder'' ?s" by (simp add: boot_def NewCache_def fresh_def)
  have 4: "fs_stat (files ?s) (get_path (directory ?s) ''folder'') = Inr (FileInfo 7 True)"
    by (simp add: boot_def NewCache_def example_path_folder fs_stat_def example_files_def)
  have 5: "time_After (ModTime (FileInfo 7 True)) (lastUpdate_of ''folder'' ?s)"
    by (simp add: boot_def NewCache_def lastUpdate_of_def time_After_def)
  have 6: "fs_read (files ?s) (get_path (directory ?s) ''folder'')
             = Inl (PathError ''read'' ''testdata/folder.json'' EISDIR)"
    by (simp add: boot_def NewCache_def example_path_folder fs_read_def example_files_def)
  have 7: "fs_read example_files ''testdata/folder.json''
             = Inl (PathError ''read'' ''testdata/folder.json'' EISDIR)"
    by (simp add: fs_read_def example_files_def)
  from read_failure_is_fatal [OF 1 2 3 4 5 6] 7 show ?thesis
    by (simp add: Cache_Get_def)
qed



lemma fs_write_ok:
  "fs_write fs now path data perm = Inr fs' \<Longrightarrow>
     \<exists>r w. fs' = fs(path \<mapsto> RegularFile now r w data)"
  by (auto simp: fs_write_def split: option.splits node.splits if_splits)

lemma fs_write_error:
  "fs_write fs now path data perm = Inl err \<Longrightarrow> \<exists>op e. err = PathError op path e"
  by (auto simp: fs_write_def split: option.splits node.splits if_splits)

lemma Cache_UpdateContext_eq:
  assumes "idle (lock s)" and "ctx_Err c (clock s) = None"
  shows "Cache_UpdateContext c name data s =
     (case fs_write (files s) (clock s) (update_path (directory s) name) data 438 of
        Inl err \<Rightarrow> (Return (Some err),
                    s\<lparr>trace := trace s @ [WriteFile (update_path (directory s) name) data]\<rparr>)
      | Inr fs \<Rightarrow> (Return None,
                    s\<lparr>trace := trace s @ [WriteFile (update_path (directory s) name) data],
                      files := fs\<rparr>))"
  using assms
  by (simp add: Cache_UpdateContext_def Lock_def Unlock_def idle_def deferred_def os_WriteFile_def
        Let_def split: sum.splits)

text \<open>
  Claim C7. \<open>Cache.UpdateContext\<close>, called with the lock free and a context that is
  not cancelled, makes exactly one library call, the write of the given bytes to the
  file \<open>update_path\<close> names. The map, the Entries and the decoded values are the same
  after it, whether the write succeeds or fails. When it returns without an error the
  file holds exactly the bytes given; otherwise the result is the path error of the
  write and the files are unchanged.
\<close>

theorem update_leaves_the_map_alone:
  assumes "idle (lock s)" and "ctx_Err c (clock s) = None"
    and "Cache_UpdateContext c name data s = (r, s')"
  shows "configs s' = configs s \<and> heap s' = heap s \<and> objects s' = objects s \<and>
         trace s' = trace s @ [WriteFile (update_path (directory s) name) data] \<and>
         (r = Return None \<longrightarrow>
            (\<exists>rd wr. files s' = (files s)(update_path (directory s) name \<mapsto>
                                   RegularFile (clock s) rd wr data))) \<and>
         (r \<noteq> Return None \<longrightarrow>
            (\<exists>op e. r = Return (Some (PathError op (update_path (directory s) name) e))) \<and>
            files s' = files s)"
proof (cases "fs_write (files s) (clock s) (update_path (directory s) name) data 438")
  case (Inl err)
  from fs_write_error [OF Inl] obtain op e
    where e: "err = PathError op (update_path (directory s) name) e" by blast
  from assms(3) Cache_UpdateContext_eq [OF assms(1,2), of name data] Inl e
  show ?thesis by auto
next
  case (Inr fs)
  from fs_write_ok [OF Inr] obtain rd wr
    where f: "fs = (files s)(update_path (directory s) name \<mapsto> RegularFile (clock s) rd wr data)"
    by blast
  from assms(3) Cache_UpdateContext_eq [OF assms(1,2), of name data] Inr f
  have "r = Return None" and "s' = s\<lparr>trace := trace s @ [WriteFile (update_path (directory s) name) data],
          files := fs\<rparr>"
    by simp_all
  then show ?thesis using f by auto
qed


lemma example_update_path_folder: "update_path ''testdata'' ''folder'' = ''testdata/folder.json''"
  by code_simp

theorem update_leaves_the_map_alone_witness:
  "fst (Cache_Update ''config_name'' ''[1]'' (example_loaded ''config_name'' 150 example_files))
     = Return None \<and>
   files (snd (Cache_Update ''config_name'' ''[1]'' (example_loaded ''config_name'' 150 example_files)))
       ''testdata/config_name.json''
     = Some (RegularFile 150 True True ''[1]'') \<and>
   configs (snd (Cache_Update ''config_name'' ''[1]'' (example_loaded ''config_name'' 150 example_files)))
     = configs (example_loaded ''config_name'' 150 example_files) \<and>
   heap (snd (Cache_Update ''config_name'' ''[1]'' (example_loaded ''config_name'' 150 example_files)))
     = heap (example_loaded ''config_name'' 150 example_files) \<and>
   fst (Cache_Update ''folder'' ''[1]'' (example_loaded ''config_name'' 150 example_files))
     = Return (Some (PathError ''open'' ''testdata/folder.json'' EISDIR)) \<and>
   configs (snd (Cache_Update ''folder'' ''[1]'' (example_loaded ''config_name'' 150 example_files)))
     = configs (example_loaded ''config_name'' 150 example_files) \<and>
   files (snd (Cache_Update ''folder'' ''[1]'' (example_loaded ''config_name'' 150 example_files)))
     = files (example_loaded ''config_name'' 150 example_files)"
proof -
  let ?s = "example_loaded ''config_name'' 150 example_files"
  have i: "idle (lock ?s)" by (simp add: example_loaded_def idle_def unlocked_def)
  have c: "ctx_Err Background (clock ?s) = None" by (simp add: ctx_Err_def)
  have d: "directory ?s = ''testdata''" by (simp add: example_loaded_def)
  have w1: "fs_write (files ?s) (clock ?s) ''testdata/config_name.json'' ''[1]'' 438
              = Inr ((files ?s)(''testdata/config_name.json'' \<mapsto> RegularFile 150 True True ''[1]''))"
    by (simp add: example_loaded_def example_files_def fs_write_def)
  have w2: "fs_write (files ?s) (clock ?s) ''testdata/folder.json'' ''[1]'' 438
              = Inl (PathError ''open'' ''testdata/folder.json'' EISDIR)"
    by (simp add: example_loaded_def example_files_def fs_write_def)
  note e1 = Cache_UpdateContext_eq [OF i c, of "''config_name''" "''[1]''"]
  note e2 = Cache_UpdateContext_eq [OF i c, of "''folder''" "''[1]''"]
  note t1 = update_leaves_the_map_alone [OF i c surjective_pairing, of "''config_name''" "''[1]''"]
  note t2 = update_leaves_the_map_alone [OF i c surjective_pairing, of "''folder''" "''[1]''"]
  have r1: "fst (Cache_UpdateContext Background ''config_name'' ''[1]'' ?s) = Return None"
    and f1: "files (snd (Cache_UpdateContext Background ''config_name'' ''[1]'' ?s))
               ''testdata/config_name.json'' = Some (RegularFile 150 True True ''[1]'')"
    using e1 w1 by (simp_all add: d example_update_path)
  have r2: "fst (Cache_UpdateContext Background ''folder'' ''[1]'' ?s)
              = Return (Some (PathError ''open'' ''testdata/folder.json'' EISDIR))"
    using e2 w2 by (simp add: d example_update_path_folder)
  from t1 t2 r1 f1 r2 show ?thesis by (simp add: Cache_Update_def)
qed

lemma shared_cancelled:
  assumes "\<not> writer (lock s)" and "ctx_Err c (clock s) = Some e"
  shows "verboseGet_shared c name s = (Done (Return (None, False, Some e)), s)"
  using assms
  by (simp add: verboseGet_shared_def RLock_def shared_return_held)

lemma verboseGet_cancelled:
  assumes "idle (lock s)" and "ctx_Err c (clock s) = Some e"
  shows "verboseGet c name s = (Return (None, False, Some e), s)"
  using assms by (simp add: verboseGet_def shared_cancelled idle_no_writer)

text \<open>What one caller's \<open>verboseGet\<close> can do, the lock being free.\<close>

lemma verboseGet_outcomes:
  assumes "idle (lock s)"
  shows "(\<exists>e. verboseGet c name s = (Return (None, False, Some e), s)) \<or>
         (\<exists>e tr. verboseGet c name s = (Return (None, False, Some e), s\<lparr>trace := tr\<rparr>)) \<or>
         verboseGet c name s = (Return (configs s name, False, None), s) \<or>
         (\<exists>tr. verboseGet c name s = (Return (configs s name, False, None), s\<lparr>trace := tr\<rparr>)) \<or>
         (\<exists>tr data. verboseGet c name s =
            (Return (Some (next_addr s), True, None),
             s\<lparr>trace := tr,
               heap := (heap s)(next_addr s := \<lparr>LastUpdate = clock s, Value = None, Raw = data\<rparr>),
               next_addr := Suc (next_addr s),
               configs := (configs s)(name \<mapsto> next_addr s)\<rparr>)) \<or>
         (\<exists>m tr. verboseGet c name s = (Fatal m, s\<lparr>lock := (lock s)\<lparr>writer := True\<rparr>, trace := tr\<rparr>))"
proof (cases "ctx_Err c (clock s)")
  case (Some e)
  then show ?thesis using verboseGet_cancelled [OF assms Some] by blast
next
  case None
  show ?thesis
  proof (cases "fresh name s")
    case True
    then show ?thesis using verboseGet_fresh [OF assms None True] by blast
  next
    case False
    show ?thesis
    proof (cases "fs_stat (files s) (get_path (directory s) name)")
      case (Inl e)
      then show ?thesis using verboseGet_stat_fails [OF assms None False Inl] by blast
    next
      case (Inr stat)
      show ?thesis
      proof (cases "time_After (ModTime stat) (lastUpdate_of name s)")
        case nafter: False
        then show ?thesis using verboseGet_unchanged [OF assms None False Inr nafter] by blast
      next
        case after: True
        show ?thesis
        proof (cases "fs_read (files s) (get_path (directory s) name)")
          case rd: (Inl e)
          then show ?thesis using verboseGet_read_fails [OF assms None False Inr after rd] by blast
        next
          case rd: (Inr data)
          then show ?thesis using verboseGet_reload [OF assms None False Inr after rd] by blast
        qed
      qed
    qed
  qed
qed

lemma verboseGet_not_updated:
  assumes "idle (lock s)" and "verboseGet c name s = (Return (cfg, False, None), s1)"
  shows "cfg = configs s name \<and> heap s1 = heap s \<and> configs s1 = configs s \<and> lock s1 = lock s"
  using verboseGet_outcomes [OF assms(1), of c name] assms by auto

lemma verboseGet_returned:
  assumes "idle (lock s)" and "verboseGet c name s = (Return (cfg, updated, None), s1)"
  shows "cfg = configs s1 name \<and> idle (lock s1) \<and> clock s1 = clock s"
  using verboseGet_outcomes [OF assms(1), of c name] assms by auto

lemma GetContext_eq:
  "verboseGet c name s = (Return (cfg, updated, err), s1) \<Longrightarrow>
   GetContext um T c name s =
     (if err \<noteq> None then (Return (None, err), s1)
      else case cached_value T cfg updated s1 of
             Some r \<Rightarrow> (r, s1)
           | None \<Rightarrow> GetContext_locked um T c cfg updated s1)"
  by (simp add: GetContext_def and_then_def)

lemma GetContext_locked_decodes:
  assumes "idle (lock s)" and "ctx_Err c (clock s) = None"
    and "cached_value T (Some a) updated s = None"
  shows "GetContext_locked um T c (Some a) updated s =
     (case um T (Raw (heap s a)) of
        Inl err \<Rightarrow>
          (Return (None, Some err), s\<lparr>trace := trace s @ [Unmarshal T (Raw (heap s a))]\<rparr>)
      | Inr v \<Rightarrow>
          (Return (Some (next_addr s), None),
           s\<lparr>trace := trace s @ [Unmarshal T (Raw (heap s a))],
             objects := (objects s)(next_addr s \<mapsto> v),
             next_addr := Suc (next_addr s),
             heap := (heap s)(a := (heap s a)\<lparr>Value := Some (T, next_addr s)\<rparr>)\<rparr>))"
proof -
  have cv: "cached_value T (Some a) updated (s\<lparr>lock := (lock s)\<lparr>writer := True\<rparr>\<rparr>) = None"
    using assms(3) by (simp add: cached_value_def split: if_splits)
  show ?thesis
    using assms(1,2) cv
    by (simp add: GetContext_locked_def Lock_def Unlock_def idle_def deferred_def Let_def
          split: sum.splits)
qed

lemma GetContext_locked_cancelled:
  assumes "idle (lock s)" and "ctx_Err c (clock s) = Some e"
  shows "GetContext_locked um T c cfg updated s = (Return (None, Some e), s)"
  using assms
  by (simp add: GetContext_locked_def Lock_def Unlock_def idle_def deferred_def)

lemma cached_value_hit:
  "cached_value T (Some a) updated s = Some r \<Longrightarrow>
     \<not> updated \<and> (\<exists>T' p. Value (heap s a) = Some (T', p) \<and>
        r = (if T' = T then Return (Some p, None)
             else Panic ''interface conversion: interface holds a pointer of another type''))"
  by (auto simp: cached_value_def type_assert_def split: if_splits option.splits)

lemma cached_value_mismatch:
  "Value (heap s a) = Some (A, p) \<Longrightarrow> B \<noteq> A \<Longrightarrow>
   cached_value B (Some a) False s =
     Some (Panic ''interface conversion: interface holds a pointer of another type'')"
  by (simp add: cached_value_def type_assert_def)

text \<open>After a typed get has returned a pointer, the Entry in the map holds it.\<close>

lemma GetContext_fills_slot:
  assumes "idle (lock s0)"
    and "GetContext um A c name s0 = (Return (Some p, None), s)"
  shows "\<exists>a. configs s name = Some a \<and> Value (heap s a) = Some (A, p) \<and> idle (lock s)"
proof -
  obtain r s1 where v: "verboseGet c name s0 = (r, s1)" by (cases "verboseGet c name s0")
  show ?thesis
  proof (cases r)
    case (Return x)
    obtain cfg updated err where x: "x = (cfg, updated, err)" by (cases x)
    note g = GetContext_eq [OF v [unfolded Return x], of um A]
    show ?thesis
    proof (cases err)
      case (Some e)
      then show ?thesis using g assms(2) by simp
    next
      case None
      note ret = verboseGet_returned [OF assms(1) v [unfolded Return x None]]
      show ?thesis
      proof (cases cfg)
        case nil: None
        then show ?thesis using g assms(2) None
          by (simp add: cached_value_def)
      next
        case (Some a)
        show ?thesis
        proof (cases "cached_value A (Some a) updated s1")
          case hit: (Some r')
          from cached_value_hit [OF hit] g assms(2) None Some hit ret
          show ?thesis by (auto split: if_splits)
        next
          case miss: None
          show ?thesis
          proof (cases "ctx_Err c (clock s1)")
            case ok: None
            from GetContext_locked_decodes [OF _ ok miss, of um] ret
            have "GetContext_locked um A c (Some a) updated s1 =
              (case um A (Raw (heap s1 a)) of
                 Inl err \<Rightarrow>
                   (Return (None, Some err), s1\<lparr>trace := trace s1 @ [Unmarshal A (Raw (heap s1 a))]\<rparr>)
               | Inr v \<Rightarrow>
                   (Return (Some (next_addr s1), None),
                    s1\<lparr>trace := trace s1 @ [Unmarshal A (Raw (heap s1 a))],
                      objects := (objects s1)(next_addr s1 \<mapsto> v),
                      next_addr := Suc (next_addr s1),
                      heap := (heap s1)(a := (heap s1 a)\<lparr>Value := Some (A, next_addr s1)\<rparr>)\<rparr>))"
              by simp
            with g assms(2) None Some miss ret show ?thesis
              by (auto split: sum.splits)
          next
            case (Some e)
            from GetContext_locked_cancelled [OF _ Some, of um A "Some a" updated] ret
              g assms(2) None \<open>cfg = Some a\<close> miss
            show ?thesis by simp
          qed
        qed
      qed
    qed
  next
    case (Panic m)
    then show ?thesis using v assms(2) by (simp add: GetContext_def and_then_def)
  next
    case (Fatal m)
    then show ?thesis using v assms(2) by (simp add: GetContext_def and_then_def)
  next
    case Blocked
    then show ?thesis using v assms(2) by (simp add: GetContext_def and_then_def)
  qed
qed

text \<open>
  Claim C1, as the code has it. A typed get of the name as type \<open>A\<close> has returned a
  pointer. Time passes and files change, and a typed get of the same name as another type
  \<open>B\<close> resolves the Entry without reloading it (\<open>verboseGet\<close> returns without an
  error and with \<open>updated = false\<close>). Then the second get returns nothing: the type
  assertion \<open>cfg.Value.(*T)\<close> at source line 29 panics. No pointer of the wrong type is
  returned, and no error value either.
\<close>

theorem second_type_panics:
  assumes "idle (lock s0)"
    and "GetContext um A c name s0 = (Return (Some p, None), s)"
    and "B \<noteq> A"
    and "verboseGet c' name (s\<lparr>clock := now, files := fs\<rparr>) = (Return (cfg, False, None), s2)"
  shows "GetContext um B c' name (s\<lparr>clock := now, files := fs\<rparr>) =
           (Panic ''interface conversion: interface holds a pointer of another type'', s2)"
proof -
  from GetContext_fills_slot [OF assms(1,2)] obtain a
    where a: "configs s name = Some a" "Value (heap s a) = Some (A, p)" "idle (lock s)"
    by blast
  let ?s' = "s\<lparr>clock := now, files := fs\<rparr>"
  have i: "idle (lock ?s')" using a(3) by simp
  from verboseGet_not_updated [OF i assms(4)] a
  have c: "cfg = Some a" and h: "Value (heap s2 a) = Some (A, p)" by simp_all
  from GetContext_eq [OF assms(4), of um B] c cached_value_mismatch [OF h assms(3)]
  show ?thesis by simp
qed

lemma example_first_verboseGet:
  "verboseGet Background ''config_name'' example_start =
     (Return (Some 0, True, None),
      example_start\<lparr>trace := [Stat ''testdata/config_name.json'', ReadFile ''testdata/config_name.json''],
        heap := (heap example_start)(0 := \<lparr>LastUpdate = 100, Value = None, Raw = ''{}''\<rparr>),
        next_addr := Suc 0,
        configs := [''config_name'' \<mapsto> 0]\<rparr>)"
proof -
  let ?s = example_start
  have 1: "idle (lock ?s)" by (simp add: example_start_def boot_def NewCache_def idle_def unlocked_def)
  have 2: "ctx_Err Background (clock ?s) = None" by (simp add: ctx_Err_def)
  have 3: "\<not> fresh ''config_name'' ?s" by (simp add: example_start_def boot_def NewCache_def fresh_def)
  have 4: "fs_stat (files ?s) (get_path (directory ?s) ''config_name'') = Inr (FileInfo 10 False)"
    by (simp add: example_start_def boot_def NewCache_def example_path fs_stat_def example_files_def)
  have 5: "time_After (ModTime (FileInfo 10 False)) (lastUpdate_of ''config_name'' ?s)"
    by (simp add: example_start_def boot_def NewCache_def lastUpdate_of_def time_After_def)
  have 6: "fs_read (files ?s) (get_path (directory ?s) ''config_name'') = Inr ''{}''"
    by (simp add: example_start_def boot_def NewCache_def example_path fs_read_def example_files_def)
  have 7: "directory ?s = ''testdata''" "next_addr ?s = 0" "trace ?s = []" "clock ?s = 100"
    "configs ?s = Map.empty"
    by (simp_all add: example_start_def boot_def NewCache_def)
  from verboseGet_reload [OF 1 2 3 4 5 6] show ?thesis
    by (simp add: 7 example_path)
qed

lemma example_first_get:
  "GetContext example_unmarshal 0 Background ''config_name'' example_start
     = (Return (Some (Suc 0), None), example_decoded)"
proof -
  let ?s1 = "example_start\<lparr>trace := [Stat ''testdata/config_name.json'', ReadFile ''testdata/config_name.json''],
        heap := (heap example_start)(0 := \<lparr>LastUpdate = 100, Value = None, Raw = ''{}''\<rparr>),
        next_addr := Suc 0,
        configs := [''config_name'' \<mapsto> 0]\<rparr>"
  have i: "idle (lock ?s1)" by (simp add: example_start_def boot_def NewCache_def idle_def unlocked_def)
  have c: "ctx_Err Background (clock ?s1) = None" by (simp add: ctx_Err_def)
  have m: "cached_value 0 (Some 0) True ?s1 = None" by (simp add: cached_value_def)
  have u: "example_unmarshal 0 (Raw (heap ?s1 0)) = Inr 2" by (simp add: example_unmarshal_def)
  have g: "GetContext example_unmarshal 0 Background ''config_name'' example_start
             = GetContext_locked example_unmarshal 0 Background (Some 0) True ?s1"
    using GetContext_eq [OF example_first_verboseGet, of example_unmarshal 0] by (simp add: m)
  have l: "GetContext_locked example_unmarshal 0 Background (Some 0) True ?s1 =
      (Return (Some (next_addr ?s1), None),
       ?s1\<lparr>trace := trace ?s1 @ [Unmarshal 0 (Raw (heap ?s1 0))],
         objects := (objects ?s1)(next_addr ?s1 \<mapsto> 2),
         next_addr := Suc (next_addr ?s1),
         heap := (heap ?s1)(0 := (heap ?s1 0)\<lparr>Value := Some (0, next_addr ?s1)\<rparr>)\<rparr>)"
    using GetContext_locked_decodes [OF i c m, of example_unmarshal] by (simp only: u sum.case)
  have e: "?s1\<lparr>trace := trace ?s1 @ [Unmarshal 0 (Raw (heap ?s1 0))],
         objects := (objects ?s1)(next_addr ?s1 \<mapsto> 2),
         next_addr := Suc (next_addr ?s1),
         heap := (heap ?s1)(0 := (heap ?s1 0)\<lparr>Value := Some (0, next_addr ?s1)\<rparr>)\<rparr> = example_decoded"
    by (simp add: example_decoded_def example_start_def boot_def NewCache_def)
  have n: "next_addr ?s1 = Suc 0" by simp
  have l': "GetContext_locked example_unmarshal 0 Background (Some 0) True ?s1
              = (Return (Some (Suc 0), None), example_decoded)"
    using l e n by simp
  show ?thesis using g l' by (simp only:)
qed

lemma example_decoded_fresh:
  "verboseGet Background ''config_name'' (example_decoded\<lparr>clock := 150, files := fs\<rparr>)
     = (Return (Some 0, False, None), example_decoded\<lparr>clock := 150, files := fs\<rparr>)"
proof -
  let ?s = "example_decoded\<lparr>clock := 150, files := fs\<rparr>"
  have 1: "idle (lock ?s)" by (simp add: example_decoded_def idle_def unlocked_def)
  have 2: "ctx_Err Background (clock ?s) = None" by (simp add: ctx_Err_def)
  have 3: "fresh ''config_name'' ?s"
    by (simp add: example_decoded_def fresh_def time_Since_def time_Sub_def maxDuration_def
          minDuration_def time_Minute_def)
  have 4: "configs ?s ''config_name'' = Some 0" by (simp add: example_decoded_def)
  from verboseGet_fresh [OF 1 2 3] 4 show ?thesis by simp
qed

theorem second_type_panics_witness:
  "GetContext example_unmarshal 1 Background ''config_name''
       (example_decoded\<lparr>clock := 150, files := Map.empty\<rparr>)
     = (Panic ''interface conversion: interface holds a pointer of another type'',
        example_decoded\<lparr>clock := 150, files := Map.empty\<rparr>)"
proof -
  have i: "idle (lock example_start)"
    by (simp add: example_start_def boot_def NewCache_def idle_def unlocked_def)
  have n: "(1::nat) \<noteq> 0" by simp
  show ?thesis
    by (rule second_type_panics [OF i example_first_get n example_decoded_fresh])
qed

text \<open>
  Claim C1, as the spec states it, fails: on the example directory a get as type \<open>0\<close>
  succeeds and the get as type \<open>1\<close> that follows panics; it returns no decode error.
\<close>

theorem second_type_gets_no_decode_error:
  "fst (Get example_unmarshal 0 ''config_name'' example_start) = Return (Some 1, None) \<and>
   fst (Get example_unmarshal 1 ''config_name''
          (snd (Get example_unmarshal 0 ''config_name'' example_start)))
     = Panic ''interface conversion: interface holds a pointer of another type'' \<and>
   (\<forall>e. fst (Get example_unmarshal 1 ''config_name''
          (snd (Get example_unmarshal 0 ''config_name'' example_start)))
     \<noteq> Return (None, Some (UnmarshalError e)))"
proof -
  let ?s = "example_decoded"
  have 1: "idle (lock ?s)" by (simp add: example_decoded_def idle_def unlocked_def)
  have 2: "ctx_Err Background (clock ?s) = None" by (simp add: ctx_Err_def)
  have 3: "fresh ''config_name'' ?s"
    by (simp add: example_decoded_def fresh_def time_Since_def time_Sub_def maxDuration_def
          minDuration_def time_Minute_def)
  have 4: "configs ?s ''config_name'' = Some 0" by (simp add: example_decoded_def)
  have v: "verboseGet Background ''config_name'' ?s = (Return (Some 0, False, None), ?s)"
    using verboseGet_fresh [OF 1 2 3] 4 by simp
  have h: "Value (heap ?s 0) = Some (0, Suc 0)" by (simp add: example_decoded_def)
  have m: "cached_value (Suc 0) (Some 0) False ?s
             = Some (Panic ''interface conversion: interface holds a pointer of another type'')"
    by (rule cached_value_mismatch [OF h]) simp
  have g: "GetContext example_unmarshal (Suc 0) Background ''config_name'' ?s
             = (Panic ''interface conversion: interface holds a pointer of another type'', ?s)"
    using GetContext_eq [OF v, of example_unmarshal "Suc 0"] m by simp
  show ?thesis using example_first_get g by (simp add: Get_def)
qed

lemma split_sep_nonempty: "split_sep c s \<noteq> []"
  by (induction s) (auto split: list.splits)

lemma split_sep_plain: "c \<notin> set s \<Longrightarrow> split_sep c s = [s]"
  by (induction s) auto

lemma split_sep_append: "split_sep c (a @ c # b) = split_sep c a @ split_sep c b"
proof (induction a)
  case Nil
  show ?case by simp
next
  case (Cons x a)
  show ?case
  proof (cases "x = c")
    case True
    then show ?thesis using Cons by simp
  next
    case False
    obtain y ys where s: "split_sep c a = y # ys"
      using split_sep_nonempty [of c a] by (cases "split_sep c a") auto
    from False Cons s show ?thesis by simp
  qed
qed

lemma join_sep_snoc:
  "join_sep sep (ys @ [f]) = (if ys = [] then f else join_sep sep ys @ sep @ f)"
proof (induction ys)
  case Nil
  show ?case by simp
next
  case (Cons y ys)
  then show ?case by (cases ys) auto
qed

lemma last_element_append:
  assumes "CHR ''/'' \<notin> set f" and "q = [] \<or> last q = CHR ''/''"
  shows "last_element (q @ f) = f"
proof -
  have t: "takeWhile (\<lambda>c. c \<noteq> CHR ''/'') (rev f) = rev f"
    using assms(1) by (auto simp: takeWhile_eq_all_conv)
  show ?thesis
  proof (cases "q = []")
    case True
    then show ?thesis by (simp add: last_element_def t)
  next
    case False
    with assms(2) have "last q = CHR ''/''" by simp
    with False have "\<exists>q'. q = q' @ ''/''"
      by (metis append_butlast_last_id)
    then obtain q' where q: "q = q' @ ''/''" by blast
    have "takeWhile (\<lambda>c. c \<noteq> CHR ''/'') (rev f @ CHR ''/'' # rev q') = rev f"
      using assms(1) by (auto simp: takeWhile_tail)
    then show ?thesis by (simp add: last_element_def q)
  qed
qed

lemma clean_keeps_last:
  assumes "plain f" and "split_sep CHR ''/'' p = xs @ [f]" and "p \<noteq> []"
  shows "last_element (filepath_Clean p) = f"
proof -
  let ?rooted = "hd p = CHR ''/''"
  let ?kept = "foldl (clean_step ?rooted) [] xs"
  let ?root = "if ?rooted then ''/'' else []"
  have k: "foldl (clean_step ?rooted) [] (split_sep CHR ''/'' p) = f # ?kept"
    using assms(1,2) by (simp add: clean_step_def plain_def)
  have o: "?root @ join_sep ''/'' (rev (f # ?kept))
             = (?root @ (if rev ?kept = [] then [] else join_sep ''/'' (rev ?kept) @ ''/'')) @ f"
    by (simp add: join_sep_snoc)
  have ne: "?root @ join_sep ''/'' (rev (f # ?kept)) \<noteq> []"
    using assms(1) by (simp add: join_sep_snoc plain_def)
  have c: "filepath_Clean p = (?root @ (if rev ?kept = [] then [] else join_sep ''/'' (rev ?kept) @ ''/'')) @ f"
    using assms(3) k ne o by (simp add: filepath_Clean_def Let_def del: join_sep.simps)
  show ?thesis
    unfolding c using assms(1)
    by (intro last_element_append) (auto simp: plain_def)
qed

lemma join_keeps_last:
  assumes "plain f"
  shows "last_element (filepath_Join [dir, f]) = f"
proof (cases "dir = []")
  case True
  have s: "split_sep CHR ''/'' f = [] @ [f]"
    using assms by (simp add: split_sep_plain plain_def)
  have "f \<noteq> []" using assms by (simp add: plain_def)
  with True clean_keeps_last [OF assms s] show ?thesis by simp
next
  case False
  have s: "split_sep CHR ''/'' (dir @ CHR ''/'' # f) = split_sep CHR ''/'' dir @ [f]"
    using assms by (simp add: split_sep_append split_sep_plain plain_def)
  from False clean_keeps_last [OF assms s] show ?thesis by simp
qed

lemma plain_json: "CHR ''/'' \<notin> set name \<Longrightarrow> plain (Sprintf_json name)"
  by (auto simp: plain_def Sprintf_json_def)

lemma set_trim_left: "set (trim_left n s) \<subseteq> set s"
proof (induction n arbitrary: s)
  case 0
  show ?case by simp
next
  case (Suc n)
  have "set (trim_left n (drop (space_prefix s) s)) \<subseteq> set (drop (space_prefix s) s)"
    by (rule Suc.IH)
  also have "\<dots> \<subseteq> set s" by (rule set_drop_subset)
  finally show ?case by simp
qed

lemma set_trim_right: "set (trim_right n s) \<subseteq> set s"
proof (induction n arbitrary: s)
  case 0
  show ?case by simp
next
  case (Suc n)
  have "set (trim_right n (take (length s - space_suffix s) s)) \<subseteq> set (take (length s - space_suffix s) s)"
    by (rule Suc.IH)
  also have "\<dots> \<subseteq> set s" by (rule set_take_subset)
  finally show ?case by simp
qed

lemma set_TrimSpace: "set (TrimSpace s) \<subseteq> set s"
  using set_trim_right [of "length (trim_left (length s) s)" "trim_left (length s) s"]
    set_trim_left [of "length s" s]
  by (auto simp: TrimSpace_def Let_def)

lemma padded_name_paths_differ:
  assumes "CHR ''/'' \<notin> set name" and "TrimSpace name \<noteq> name"
  shows "get_path dir name \<noteq> update_path dir name"
proof
  assume e: "get_path dir name = update_path dir name"
  have t: "CHR ''/'' \<notin> set (TrimSpace name)" using assms(1) set_TrimSpace [of name] by blast
  have "last_element (get_path dir name) = Sprintf_json (TrimSpace name)"
    unfolding get_path_def by (rule join_keeps_last [OF plain_json [OF t]])
  moreover have "last_element (update_path dir name) = Sprintf_json name"
    unfolding update_path_def by (rule join_keeps_last [OF plain_json [OF assms(1)]])
  ultimately have "Sprintf_json (TrimSpace name) = Sprintf_json name" using e by simp
  then show False using assms(2) by (simp add: Sprintf_json_def)
qed

lemma shared_stat_logged:
  assumes "\<not> writer (lock s)" and "ctx_Err c (clock s) = None" and "\<not> fresh name s"
  shows "trace (snd (verboseGet_shared c name s)) = trace s @ [Stat (get_path (directory s) name)]"
proof (cases "fs_stat (files s) (get_path (directory s) name)")
  case (Inl e)
  then show ?thesis using shared_stat_fails [OF assms Inl] by simp
next
  case (Inr stat)
  show ?thesis
  proof (cases "time_After (ModTime stat) (lastUpdate_of name s)")
    case True
    then show ?thesis using shared_upgrade [OF assms Inr True] by simp
  next
    case False
    then show ?thesis using shared_unchanged [OF assms Inr False] by simp
  qed
qed

lemma update_logged:
  assumes "idle (lock s)" and "ctx_Err c (clock s) = None"
  shows "trace (snd (Cache_UpdateContext c name data s))
           = trace s @ [WriteFile (update_path (directory s) name) data]"
  using Cache_UpdateContext_eq [OF assms, of name data] by (simp split: sum.splits)

lemma verboseGet_reloaded:
  assumes "idle (lock s)" and "verboseGet c name s = (Return (cfg, True, err), s1)"
  shows "cfg = Some (next_addr s) \<and> err = None \<and> next_addr s1 = Suc (next_addr s) \<and>
         configs s1 = (configs s)(name \<mapsto> next_addr s) \<and> directory s1 = directory s \<and>
         lock s1 = lock s"
  using verboseGet_outcomes [OF assms(1), of c name] assms by auto

text \<open>
  Claim C10, as the code has it. With the lock free and the context not cancelled:
  a get that reaches the stat stats \<open>Join(directory, TrimSpace(name) + ".json")\<close>,
  an update writes \<open>Join(directory, name + ".json")\<close>. For a name without a path
  separator that \<open>TrimSpace\<close> changes, the two paths differ. The map is keyed by the name
  as given: when a get of the name and then a get of another name with the same trimmed
  form each load the file, the two Entries are distinct, both stay in the map under their
  own keys, and both were read from the same path.
\<close>

theorem padded_name_asymmetry:
  assumes "idle (lock s)" and "ctx_Err c (clock s) = None"
  shows "(\<not> fresh name s \<longrightarrow>
            trace (snd (verboseGet_shared c name s))
              = trace s @ [Stat (filepath_Join [directory s, TrimSpace name @ ''.json''])]) \<and>
         trace (snd (Cache_UpdateContext c name data s))
              = trace s @ [WriteFile (filepath_Join [directory s, name @ ''.json'']) data] \<and>
         (CHR ''/'' \<notin> set name \<and> TrimSpace name \<noteq> name \<longrightarrow>
            filepath_Join [directory s, TrimSpace name @ ''.json'']
              \<noteq> filepath_Join [directory s, name @ ''.json'']) \<and>
         (\<forall>other a1 a2 s1 s2 c2 now fs.
            other \<noteq> name \<and> TrimSpace other = TrimSpace name \<and>
            verboseGet c name s = (Return (Some a1, True, None), s1) \<and>
            verboseGet c2 other (s1\<lparr>clock := now, files := fs\<rparr>) = (Return (Some a2, True, None), s2)
            \<longrightarrow> a1 \<noteq> a2 \<and> configs s2 name = Some a1 \<and> configs s2 other = Some a2 \<and>
                get_path (directory s2) other = get_path (directory s) name)"
proof -
  have A: "\<not> fresh name s \<longrightarrow>
            trace (snd (verboseGet_shared c name s))
              = trace s @ [Stat (filepath_Join [directory s, TrimSpace name @ ''.json''])]"
    using shared_stat_logged [OF idle_no_writer [OF assms(1)] assms(2), of name]
    by (simp add: get_path_def Sprintf_json_def)
  have B: "trace (snd (Cache_UpdateContext c name data s))
              = trace s @ [WriteFile (filepath_Join [directory s, name @ ''.json'']) data]"
    using update_logged [OF assms, of name data]
    by (simp add: update_path_def Sprintf_json_def)
  have C: "CHR ''/'' \<notin> set name \<and> TrimSpace name \<noteq> name \<longrightarrow>
            filepath_Join [directory s, TrimSpace name @ ''.json'']
              \<noteq> filepath_Join [directory s, name @ ''.json'']"
    using padded_name_paths_differ [of name "directory s"]
    by (simp add: get_path_def update_path_def Sprintf_json_def)
  have D: "a1 \<noteq> a2 \<and> configs s2 name = Some a1 \<and> configs s2 other = Some a2 \<and>
                get_path (directory s2) other = get_path (directory s) name"
    if h: "other \<noteq> name \<and> TrimSpace other = TrimSpace name \<and>
            verboseGet c name s = (Return (Some a1, True, None), s1) \<and>
            verboseGet c2 other (s1\<lparr>clock := now, files := fs\<rparr>) = (Return (Some a2, True, None), s2)"
    for other a1 a2 s1 s2 c2 now fs
  proof -
    from h have v1: "verboseGet c name s = (Return (Some a1, True, None), s1)"
      and v2: "verboseGet c2 other (s1\<lparr>clock := now, files := fs\<rparr>) = (Return (Some a2, True, None), s2)"
      and ne: "other \<noteq> name" and tr: "TrimSpace other = TrimSpace name"
      by simp_all
    note r1 = verboseGet_reloaded [OF assms(1) v1]
    have i: "idle (lock (s1\<lparr>clock := now, files := fs\<rparr>))" using r1 assms(1) by simp
    note r2 = verboseGet_reloaded [OF i v2]
    have "a1 \<noteq> a2" using r1 r2 by simp
    moreover have "configs s2 name = Some a1" using r1 r2 ne by simp
    moreover have "configs s2 other = Some a2" using r2 by simp
    moreover have "get_path (directory s2) other = get_path (directory s) name"
      using r1 r2 tr by (simp add: get_path_def)
    ultimately show ?thesis by simp
  qed
  show ?thesis using A B C D by blast
qed

text \<open>
  Claim C10, as stated for every padded name, fails: \<open>filepath.Join\<close> cleans the
  path, so for the name \<open>" abc/../x"\<close> the get and the update address the same file.
\<close>

theorem padded_name_same_file:
  "TrimSpace '' abc/../x'' \<noteq> '' abc/../x'' \<and>
   get_path ''testdata'' '' abc/../x'' = ''testdata/x.json'' \<and>
   update_path ''testdata'' '' abc/../x'' = ''testdata/x.json''"
  by code_simp

lemma example_path_padded: "get_path ''testdata'' '' config_name '' = ''testdata/config_name.json''"
  by code_simp

lemma example_update_path_padded:
  "filepath_Join [''testdata'', '' config_name .json''] = ''testdata/ config_name .json''"
  by code_simp

lemma example_trim_padded: "TrimSpace '' config_name '' = ''config_name''"
  by code_simp

lemmas example_start_simps = example_start_def boot_def NewCache_def

lemma example_padded_verboseGet:
  "verboseGet Background '' config_name '' example_start =
     (Return (Some 0, True, None),
      example_start\<lparr>trace := [Stat ''testdata/config_name.json'', ReadFile ''testdata/config_name.json''],
        heap := (heap example_start)(0 := \<lparr>LastUpdate = 100, Value = None, Raw = ''{}''\<rparr>),
        next_addr := Suc 0,
        configs := ['' config_name '' \<mapsto> 0]\<rparr>)"
proof -
  let ?s = example_start
  have 1: "idle (lock ?s)" by (simp add: example_start_simps idle_def unlocked_def)
  have 2: "ctx_Err Background (clock ?s) = None" by (simp add: ctx_Err_def)
  have 3: "\<not> fresh '' config_name '' ?s" by (simp add: example_start_simps fresh_def)
  have 4: "fs_stat (files ?s) (get_path (directory ?s) '' config_name '') = Inr (FileInfo 10 False)"
    by (simp add: example_start_simps example_path_padded fs_stat_def example_files_def)
  have 5: "time_After (ModTime (FileInfo 10 False)) (lastUpdate_of '' config_name '' ?s)"
    by (simp add: example_start_simps lastUpdate_of_def time_After_def)
  have 6: "fs_read (files ?s) (get_path (directory ?s) '' config_name '') = Inr ''{}''"
    by (simp add: example_start_simps example_path_padded fs_read_def example_files_def)
  have 7: "directory ?s = ''testdata''" "next_addr ?s = 0" "trace ?s = []" "clock ?s = 100"
    "configs ?s = Map.empty"
    by (simp_all add: example_start_simps)
  from verboseGet_reload [OF 1 2 3 4 5 6] show ?thesis
    by (simp add: 7 example_path_padded)
qed

lemma example_second_verboseGet:
  "fst (verboseGet Background ''config_name'' example_padded) = Return (Some (Suc 0), True, None)"
proof -
  let ?s = example_padded
  have 1: "idle (lock ?s)" by (simp add: example_padded_def example_start_simps idle_def unlocked_def)
  have 2: "ctx_Err Background (clock ?s) = None" by (simp add: ctx_Err_def)
  have 3: "\<not> fresh ''config_name'' ?s" by (simp add: example_padded_def example_start_simps fresh_def)
  have 4: "fs_stat (files ?s) (get_path (directory ?s) ''config_name'') = Inr (FileInfo 10 False)"
    by (simp add: example_padded_def example_start_simps example_path fs_stat_def example_files_def)
  have 5: "time_After (ModTime (FileInfo 10 False)) (lastUpdate_of ''config_name'' ?s)"
    by (simp add: example_padded_def example_start_simps lastUpdate_of_def time_After_def)
  have 6: "fs_read (files ?s) (get_path (directory ?s) ''config_name'') = Inr ''{}''"
    by (simp add: example_padded_def example_start_simps example_path fs_read_def example_files_def)
  have 7: "next_addr ?s = Suc 0" by (simp add: example_padded_def)
  from verboseGet_reload [OF 1 2 3 4 5 6] show ?thesis by (simp add: 7)
qed

theorem padded_name_asymmetry_witness:
  "trace (snd (verboseGet_shared Background '' config_name '' example_start))
     = [Stat ''testdata/config_name.json''] \<and>
   trace (snd (Cache_UpdateContext Background '' config_name '' ''[1]'' example_start))
     = [WriteFile ''testdata/ config_name .json'' ''[1]''] \<and>
   configs (snd (verboseGet Background ''config_name'' example_padded)) '' config_name '' = Some 0 \<and>
   configs (snd (verboseGet Background ''config_name'' example_padded)) ''config_name'' = Some 1 \<and>
   get_path ''testdata'' ''config_name'' = get_path ''testdata'' '' config_name ''"
proof -
  have i: "idle (lock example_start)" by (simp add: example_start_simps idle_def unlocked_def)
  have c: "ctx_Err Background (clock example_start) = None" by (simp add: ctx_Err_def)
  have f: "\<not> fresh '' config_name '' example_start" by (simp add: example_start_simps fresh_def)
  have d: "directory example_start = ''testdata''" "trace example_start = []"
    by (simp_all add: example_start_simps)
  have p: "example_padded = (snd (verboseGet Background '' config_name '' example_start))
             \<lparr>clock := 200, files := example_files\<rparr>"
    by (simp add: example_padded_verboseGet example_padded_def)
  have v2: "verboseGet Background ''config_name'' example_padded
              = (Return (Some (Suc 0), True, None), snd (verboseGet Background ''config_name'' example_padded))"
    using example_second_verboseGet by (metis prod.collapse)
  note T = padded_name_asymmetry [OF i c, of "'' config_name ''" "''[1]''"]
  from T f have A: "trace (snd (verboseGet_shared Background '' config_name '' example_start))
     = [Stat ''testdata/config_name.json'']"
    using example_path_padded by (simp add: d get_path_def Sprintf_json_def)
  from T have B: "trace (snd (Cache_UpdateContext Background '' config_name '' ''[1]'' example_start))
     = [WriteFile ''testdata/ config_name .json'' ''[1]'']"
    using example_update_path_padded by (simp add: d)
  from T have D: "\<And>other a1 a2 s1 s2 c2 now fs.
            other \<noteq> '' config_name '' \<Longrightarrow> TrimSpace other = TrimSpace '' config_name '' \<Longrightarrow>
            verboseGet Background '' config_name '' example_start = (Return (Some a1, True, None), s1) \<Longrightarrow>
            verboseGet c2 other (s1\<lparr>clock := now, files := fs\<rparr>) = (Return (Some a2, True, None), s2)
            \<Longrightarrow> a1 \<noteq> a2 \<and> configs s2 '' config_name '' = Some a1 \<and> configs s2 other = Some a2 \<and>
                get_path (directory s2) other = get_path (directory example_start) '' config_name ''"
    by blast
  have ne: "''config_name'' \<noteq> '' config_name ''" by simp
  have tr: "TrimSpace ''config_name'' = TrimSpace '' config_name ''" by code_simp
  from D [OF ne tr example_padded_verboseGet v2 [unfolded example_padded_def]]
  have E: "configs (snd (verboseGet Background ''config_name'' example_padded)) '' config_name '' = Some 0"
    "configs (snd (verboseGet Background ''config_name'' example_padded)) ''config_name'' = Some 1"
    by (simp_all add: example_padded_def)
  have G: "get_path ''testdata'' ''config_name'' = get_path ''testdata'' '' config_name ''"
    by (simp add: example_path example_path_padded)
  from A B E G show ?thesis by simp
qed

end
